theory Spec2Isabelle
  imports Complex_Main "HOL-Library.AList"
begin

section \<open>Values, exceptions and the HTTP session\<close>

text \<open>
  The token lifecycle of \<^verbatim>\<open>dimplex_controller/auth.py\<close> (class \<^verbatim>\<open>AuthManager\<close>).
  Python is dynamically typed: whatever a JSON document holds is stored in the manager's
  fields as it is. The values that can reach those fields are therefore modelled by one
  datatype: \<open>JNull\<close> is Python's \<^verbatim>\<open>None\<close>, \<open>JInt\<close> an \<^verbatim>\<open>int\<close> (unbounded), \<open>JFloat\<close> a
  \<^verbatim>\<open>float\<close> (read as a real number: rounding of floats, infinities and NaN are not
  modelled), \<open>JObj\<close> a \<^verbatim>\<open>dict\<close> as an association list with distinct keys.
  Strings are ASCII texts.
\<close>

datatype json =
  JNull
| JBool bool
| JInt int
| JFloat real
| JStr string
| JArr "json list"
| JObj "(string \<times> json) list"

text \<open>
  The exceptions that can leave the modelled code. \<open>ClientError\<close> stands for
  \<^verbatim>\<open>aiohttp.ClientError\<close> and its subclasses (a failed transport, a response whose
  content type is not JSON), \<open>JSONDecodeError\<close> for a text that is not JSON;
  \<open>ValueError\<close> is a \<^verbatim>\<open>ValueError\<close> that is not a \<^verbatim>\<open>JSONDecodeError\<close>.
\<close>

datatype error =
  DimplexAuthError string
| ClientError
| JSONDecodeError
| TypeError
| AttributeError
| OverflowError
| ValueError
| RecursionError
| OSError

text \<open>Truthiness (\<^verbatim>\<open>not x\<close>, \<^verbatim>\<open>x or y\<close>) of a Python value.\<close>

fun truthy :: "json \<Rightarrow> bool" where
  "truthy JNull = False"
| "truthy (JBool b) = b"
| "truthy (JInt i) = (i \<noteq> 0)"
| "truthy (JFloat r) = (r \<noteq> 0)"
| "truthy (JStr s) = (s \<noteq> [])"
| "truthy (JArr xs) = (xs \<noteq> [])"
| "truthy (JObj kvs) = (kvs \<noteq> [])"

text \<open>
  The value of a number in a comparison \<^verbatim>\<open>float < x\<close>, which Python decides exactly for
  every \<^verbatim>\<open>int\<close>: numbers (and booleans, which are integers in Python) are accepted, anything
  else raises \<^verbatim>\<open>TypeError\<close> (\<open>None\<close> here).
\<close>

fun as_number :: "json \<Rightarrow> real option" where
  "as_number (JInt i) = Some (of_int i)"
| "as_number (JFloat r) = Some r"
| "as_number (JBool b) = Some (if b then 1 else 0)"
| "as_number _ = None"

text \<open>
  The operand of \<^verbatim>\<open>float + x\<close>: an \<^verbatim>\<open>int\<close> is converted to a \<^verbatim>\<open>float\<close> first, which raises
  \<^verbatim>\<open>OverflowError\<close> when it rounds beyond the largest binary64 number, that is from
  \<open>2^1024 - 2^970\<close> on; a value that is no number raises \<^verbatim>\<open>TypeError\<close>.
\<close>

definition float_limit :: int where
  "float_limit = 2 ^ 1024 - 2 ^ 970"

fun float_operand :: "json \<Rightarrow> error + real" where
  "float_operand (JInt i) = (if \<bar>i\<bar> < float_limit then Inr (of_int i) else Inl OverflowError)"
| "float_operand (JFloat r) = Inr r"
| "float_operand (JBool b) = Inr (if b then 1 else 0)"
| "float_operand _ = Inl TypeError"

text \<open>
  \<^verbatim>\<open>d.get(key, default)\<close>: defined on a dict only; a list, string, number or
  \<^verbatim>\<open>None\<close> has no attribute \<^verbatim>\<open>get\<close>.
\<close>

fun dict_get :: "json \<Rightarrow> string \<Rightarrow> json \<Rightarrow> error + json" where
  "dict_get (JObj kvs) k d = Inr (case map_of kvs k of None \<Rightarrow> d | Some v \<Rightarrow> v)"
| "dict_get _ k d = Inl AttributeError"

text \<open>\<^verbatim>\<open>str(n)\<close> of an integer (the status in an f-string): decimal digits.\<close>

definition digit_char :: "nat \<Rightarrow> char" where
  "digit_char d = char_of (48 + d)"

function str_nat :: "nat \<Rightarrow> string" where
  "str_nat n = (if n < 10 then [digit_char n] else str_nat (n div 10) @ [digit_char (n mod 10)])"
  by pat_completeness auto
termination
  by (relation "measure (\<lambda>n. n)") auto

definition str_int :: "int \<Rightarrow> string" where
  "str_int i = (if i < 0 then CHR ''-'' # str_nat (nat (- i)) else str_nat (nat i))"

subsection \<open>Constants (\<^verbatim>\<open>const.py\<close>)\<close>

definition HTTP_OK :: int where
  "HTTP_OK = 200"

definition AUTH_URL :: string where
  "AUTH_URL = ''https://gdhvb2c.b2clogin.com/tfp/gdhvb2c.onmicrosoft.com/B2C_1A_DimplexControlSignupSignin/oauth2/v2.0''"

definition CLIENT_ID :: string where
  "CLIENT_ID = ''6c983ca3-506e-4933-8993-0e18e6a24bbd''"

definition SCOPE :: string where
  "SCOPE = ''https://gdhvb2c.onmicrosoft.com/Mobile/read offline_access openid profile''"

definition REDIRECT_URI :: string where
  "REDIRECT_URI = ''msal6c983ca3-506e-4933-8993-0e18e6a24bbd://auth/''"

subsection \<open>Requests, responses and the manager's state\<close>

text \<open>
  A request as the code hands it to \<^verbatim>\<open>self._session\<close>, and the attributes of a response
  the code reads: \<^verbatim>\<open>resp.status\<close>, \<^verbatim>\<open>await resp.text()\<close>, \<^verbatim>\<open>await resp.json()\<close>
  (which raises on a body that is not JSON), \<^verbatim>\<open>resp.headers.get("Location")\<close> and
  \<^verbatim>\<open>str(resp.url)\<close>.
\<close>

datatype http_method = GET | POST

record request =
  req_method :: http_method
  req_url :: string
  req_data :: "(string \<times> json) list"
  req_headers :: "(string \<times> json) list"
  req_allow_redirects :: bool

record response =
  resp_status :: int
  resp_text :: string
  resp_json :: "error + json"
  resp_location :: "string option"
  resp_url :: string

type_synonym reply = "error + response"

text \<open>
  The \<^verbatim>\<open>AuthManager\<close> object: its three token fields, and its session. The session is
  the list of requests sent so far and the replies the network still holds, in the order
  they will arrive (a reply is a response, or the exception the transport raises);
  quantifying over \<open>pending\<close> quantifies over every behaviour of the server.
\<close>

record auth_manager =
  access_token :: json
  refresh_token :: json
  expires_at :: json
  sent :: "request list"
  pending :: "reply list"

definition tokens_of :: "auth_manager \<Rightarrow> json \<times> json \<times> json" where
  "tokens_of s = (access_token s, refresh_token s, expires_at s)"

text \<open>
  One call of \<^verbatim>\<open>self._session.get\<close>/\<^verbatim>\<open>post\<close>: the request is recorded and the next
  reply is consumed. With no reply left the transport fails.
\<close>

definition http_request :: "request \<Rightarrow> auth_manager \<Rightarrow> reply \<times> auth_manager" where
  "http_request rq s =
     (case pending s of
        [] \<Rightarrow> (Inl ClientError, s\<lparr>sent := sent s @ [rq]\<rparr>)
      | r # rs \<Rightarrow> (r, s\<lparr>sent := sent s @ [rq], pending := rs\<rparr>))"

definition session_get :: "string \<Rightarrow> bool \<Rightarrow> request" where
  "session_get u follow =
     \<lparr>req_method = GET, req_url = u, req_data = [], req_headers = [], req_allow_redirects = follow\<rparr>"

definition session_post :: "string \<Rightarrow> (string \<times> json) list \<Rightarrow> (string \<times> json) list \<Rightarrow> request" where
  "session_post u payload hdrs =
     \<lparr>req_method = POST, req_url = u, req_data = payload, req_headers = hdrs, req_allow_redirects = True\<rparr>"

section \<open>Token state operations\<close>

text \<open>
  \<^verbatim>\<open>__init__\<close>: the fields from a loaded token dict, or the empty state when
  \<^verbatim>\<open>token_data\<close> is falsy. A truthy value that is not a dict has no \<^verbatim>\<open>get\<close>.
\<close>

definition init_manager :: "reply list \<Rightarrow> json \<Rightarrow> error + auth_manager" where
  "init_manager session token_data =
     (if \<not> truthy token_data
      then Inr \<lparr>access_token = JNull, refresh_token = JNull, expires_at = JInt 0,
                sent = [], pending = session\<rparr>
      else case dict_get token_data ''access_token'' JNull of
        Inl e \<Rightarrow> Inl e
      | Inr a \<Rightarrow>
        (case dict_get token_data ''refresh_token'' JNull of
           Inl e \<Rightarrow> Inl e
         | Inr r \<Rightarrow>
           (case dict_get token_data ''expires_at'' (JInt 0) of
              Inl e \<Rightarrow> Inl e
            | Inr x \<Rightarrow> Inr \<lparr>access_token = a, refresh_token = r, expires_at = x,
                            sent = [], pending = session\<rparr>)))"

text \<open>
  \<^verbatim>\<open>is_authenticated\<close>, with the reading \<open>now\<close> of \<^verbatim>\<open>time.time()\<close> as an argument.
  \<^verbatim>\<open>and\<close> is short-circuit: the comparison runs only when a token is held.
\<close>

definition is_authenticated :: "real \<Rightarrow> auth_manager \<Rightarrow> error + bool" where
  "is_authenticated now s =
     (if access_token s = JNull then Inr False
      else case as_number (expires_at s) of
        None \<Rightarrow> Inl TypeError
      | Some e \<Rightarrow> Inr (now < e))"

text \<open>
  \<^verbatim>\<open>_update_tokens\<close>: three assignments in the source's order, so an exception in a
  later line leaves the earlier assignments in place. The sum \<^verbatim>\<open>time.time() + expires_in\<close>
  raises on an operand that is no number or an \<^verbatim>\<open>int\<close> too large for a \<^verbatim>\<open>float\<close>.
\<close>

definition update_tokens :: "real \<Rightarrow> json \<Rightarrow> auth_manager \<Rightarrow> (error + unit) \<times> auth_manager" where
  "update_tokens now data s =
     (case dict_get data ''access_token'' JNull of
        Inl e \<Rightarrow> (Inl e, s)
      | Inr a \<Rightarrow>
        (let s1 = s\<lparr>access_token := a\<rparr> in
         case dict_get data ''refresh_token'' JNull of
           Inl e \<Rightarrow> (Inl e, s1)
         | Inr r \<Rightarrow>
           (let s2 = s1\<lparr>refresh_token := r\<rparr> in
            case dict_get data ''expires_in'' (JInt 3600) of
              Inl e \<Rightarrow> (Inl e, s2)
            | Inr expires_in \<Rightarrow>
              (case float_operand expires_in of
                 Inl e \<Rightarrow> (Inl e, s2)
               | Inr n \<Rightarrow> (Inr (), s2\<lparr>expires_at := JFloat (now + n - 60)\<rparr>)))))"

definition token_url :: string where
  "token_url = AUTH_URL @ ''/token''"

definition refresh_payload :: "json \<Rightarrow> (string \<times> json) list" where
  "refresh_payload rt =
     [(''client_id'', JStr CLIENT_ID), (''grant_type'', JStr ''refresh_token''),
      (''refresh_token'', rt), (''scope'', JStr SCOPE), (''client_info'', JStr ''1'')]"

text \<open>\<^verbatim>\<open>refresh_tokens\<close>; \<open>now\<close> is the clock when the response is processed.\<close>

definition refresh_tokens :: "real \<Rightarrow> auth_manager \<Rightarrow> (error + unit) \<times> auth_manager" where
  "refresh_tokens now s =
     (case http_request (session_post token_url (refresh_payload (refresh_token s)) []) s of
        (Inl e, s1) \<Rightarrow> (Inl e, s1)
      | (Inr resp, s1) \<Rightarrow>
          if resp_status resp \<noteq> HTTP_OK
          then (Inl (DimplexAuthError
                  (''Failed to refresh token: '' @ str_int (resp_status resp) @ '' - '' @ resp_text resp)), s1)
          else (case resp_json resp of
                  Inl e \<Rightarrow> (Inl e, s1)
                | Inr data \<Rightarrow> update_tokens now data s1))"

definition exchange_payload :: "string \<Rightarrow> (string \<times> json) list" where
  "exchange_payload code =
     [(''client_id'', JStr CLIENT_ID), (''grant_type'', JStr ''authorization_code''),
      (''code'', JStr code), (''redirect_uri'', JStr REDIRECT_URI), (''scope'', JStr SCOPE)]"

text \<open>\<^verbatim>\<open>exchange_code\<close>.\<close>

definition exchange_code :: "real \<Rightarrow> string \<Rightarrow> auth_manager \<Rightarrow> (error + unit) \<times> auth_manager" where
  "exchange_code now code s =
     (case http_request (session_post token_url (exchange_payload code) []) s of
        (Inl e, s1) \<Rightarrow> (Inl e, s1)
      | (Inr resp, s1) \<Rightarrow>
          if resp_status resp \<noteq> HTTP_OK
          then (Inl (DimplexAuthError (''Failed to exchange code: '' @ resp_text resp)), s1)
          else (case resp_json resp of
                  Inl e \<Rightarrow> (Inl e, s1)
                | Inr data \<Rightarrow> update_tokens now data s1))"

text \<open>
  \<^verbatim>\<open>get_access_token\<close>. The clock is read twice at most: \<open>now\<close> by
  \<^verbatim>\<open>is_authenticated\<close>, \<open>now'\<close> when the refreshed tokens are stored.
\<close>

definition get_access_token :: "real \<Rightarrow> real \<Rightarrow> auth_manager \<Rightarrow> (error + json) \<times> auth_manager" where
  "get_access_token now now' s =
     (if \<not> truthy (refresh_token s)
      then (Inl (DimplexAuthError ''No refresh token available. User must authenticate first.''), s)
      else case is_authenticated now s of
        Inl e \<Rightarrow> (Inl e, s)
      | Inr True \<Rightarrow> (Inr (access_token s), s)
      | Inr False \<Rightarrow>
          (case refresh_tokens now' s of
             (Inl e, s1) \<Rightarrow> (Inl e, s1)
           | (Inr u, s1) \<Rightarrow> (Inr (access_token s1), s1)))"

section \<open>Library functions the login flow calls\<close>

text \<open>
  Library functions whose results no claim depends on are parameters of the model:
  \<^verbatim>\<open>json.loads\<close> (the exception it raises, or the value), \<^verbatim>\<open>json.dumps\<close>,
  \<^verbatim>\<open>urlencode\<close>, the (name, value) pairs BeautifulSoup finds in the inputs of the login
  form, \<^verbatim>\<open>str()\<close> of a value in an f-string, the test the URL parser applies to a network
  location that holds a bracketed host (an IPv6 literal), and the UTF-8 decoding, with
  replacement characters, of percent-decoded bytes that are not all ASCII.
\<close>

record library =
  json_loads :: "string \<Rightarrow> error + json"
  json_dumps :: "json \<Rightarrow> string"
  urlencode :: "(string \<times> json) list \<Rightarrow> string"
  form_inputs :: "string \<Rightarrow> (string \<times> string) list"
  py_str :: "json \<Rightarrow> string"
  bracketed_host_ok :: "string \<Rightarrow> bool"
  utf8_decode :: "string \<Rightarrow> string"

text \<open>
  The functions of the Python library whose results the claims depend on are written
  out: substring tests, \<^verbatim>\<open>str.split\<close>, \<^verbatim>\<open>urlparse\<close> as far as its query component and
  its \<^verbatim>\<open>ValueError\<close> go (as in \<^verbatim>\<open>urllib.parse.urlsplit\<close> of CPython 3.11), and
  \<^verbatim>\<open>parse_qs\<close> with percent-decoding.
\<close>

definition startswith :: "string \<Rightarrow> string \<Rightarrow> bool" where
  "startswith p s = (take (length p) s = p)"

text \<open>\<^verbatim>\<open>sub in s\<close>.\<close>

fun contains :: "string \<Rightarrow> string \<Rightarrow> bool" where
  "contains sub [] = (sub = [])"
| "contains sub (c # cs) = (startswith sub (c # cs) \<or> contains sub cs)"


text \<open>\<^verbatim>\<open>s.split(d)\<close> for a one-character separator.\<close>

fun split_on :: "char \<Rightarrow> string \<Rightarrow> string list" where
  "split_on d [] = [[]]"
| "split_on d (c # cs) =
     (if c = d then [] # split_on d cs
      else case split_on d cs of [] \<Rightarrow> [[c]] | p # ps \<Rightarrow> (c # p) # ps)"

text \<open>
  \<^verbatim>\<open>urlsplit\<close> first strips leading control characters and spaces and removes tabs and
  line breaks.
\<close>

definition url_clean :: "string \<Rightarrow> string" where
  "url_clean u =
     filter (\<lambda>c. c \<noteq> CHR 0x09 \<and> c \<noteq> CHR 0x0A \<and> c \<noteq> CHR 0x0D)
       (dropWhile (\<lambda>c. (of_char c :: nat) \<le> 32) u)"

definition is_alpha :: "char \<Rightarrow> bool" where
  "is_alpha c = (let n = (of_char c :: nat) in (65 \<le> n \<and> n \<le> 90) \<or> (97 \<le> n \<and> n \<le> 122))"

definition is_scheme_char :: "char \<Rightarrow> bool" where
  "is_scheme_char c =
     (let n = (of_char c :: nat) in
      is_alpha c \<or> (48 \<le> n \<and> n \<le> 57) \<or> c = CHR ''+'' \<or> c = CHR ''-'' \<or> c = CHR ''.'')"

text \<open>
  The scheme: the text before the first colon, when it is not empty, starts with a letter
  and holds scheme characters only, is cut off with the colon.
\<close>

definition strip_scheme :: "string \<Rightarrow> string" where
  "strip_scheme u =
     (case takeWhile (\<lambda>c. c \<noteq> CHR '':'') u of
        [] \<Rightarrow> u
      | c # cs \<Rightarrow>
          if CHR '':'' \<in> set u \<and> is_alpha c \<and> list_all is_scheme_char (c # cs)
          then (case dropWhile (\<lambda>c. c \<noteq> CHR '':'') u of [] \<Rightarrow> u | colon # rest \<Rightarrow> rest)
          else u)"

text \<open>
  The network location: after a leading \<open>//\<close>, the text up to the first of \<open>/\<close>, \<open>?\<close> and
  \<open>#\<close>; empty without the \<open>//\<close>. A location with one bracket but not the other raises
  \<^verbatim>\<open>ValueError\<close>, and so does one with both whose bracketed host the library refuses.
\<close>

definition url_netloc :: "string \<Rightarrow> string" where
  "url_netloc w =
     (case w of
        a # b # rest \<Rightarrow>
          if a = CHR ''/'' \<and> b = CHR ''/''
          then takeWhile (\<lambda>c. c \<noteq> CHR ''/'' \<and> c \<noteq> CHR ''?'' \<and> c \<noteq> CHR ''#'') rest
          else []
      | _ \<Rightarrow> [])"

definition netloc_rejected :: "library \<Rightarrow> string \<Rightarrow> bool" where
  "netloc_rejected lib netloc =
     (if CHR ''['' \<in> set netloc
      then (if CHR '']'' \<in> set netloc then \<not> bracketed_host_ok lib netloc else True)
      else CHR '']'' \<in> set netloc)"

text \<open>
  \<^verbatim>\<open>urlparse(location).query\<close>: the fragment is cut at the first \<open>#\<close>, and the query is
  what follows the first \<open>?\<close> before it.
\<close>

definition urlparse_query :: "library \<Rightarrow> string \<Rightarrow> error + string" where
  "urlparse_query lib u =
     (let w = strip_scheme (url_clean u) in
      if netloc_rejected lib (url_netloc w) then Inl ValueError
      else Inr (case dropWhile (\<lambda>c. c \<noteq> CHR ''?'') (takeWhile (\<lambda>c. c \<noteq> CHR ''#'') w) of
                  [] \<Rightarrow> []
                | q # rest \<Rightarrow> rest))"

definition hex_val :: "char \<Rightarrow> nat option" where
  "hex_val c =
     (let n = (of_char c :: nat) in
      if 48 \<le> n \<and> n \<le> 57 then Some (n - 48)
      else if 65 \<le> n \<and> n \<le> 70 then Some (n - 55)
      else if 97 \<le> n \<and> n \<le> 102 then Some (n - 87)
      else None)"

text \<open>
  \<^verbatim>\<open>unquote\<close>: \<open>%XX\<close> becomes the byte \<open>XX\<close>, a \<open>%\<close> not followed by two hex digits
  stays, and the bytes are decoded as UTF-8, which changes nothing when they are all ASCII.
\<close>

fun unquote_to_bytes :: "string \<Rightarrow> string" where
  "unquote_to_bytes [] = []"
| "unquote_to_bytes [c] = [c]"
| "unquote_to_bytes [c, d] = [c, d]"
| "unquote_to_bytes (c # h1 # h2 # rest) =
     (if c = CHR ''%'' then
        (case (hex_val h1, hex_val h2) of
           (Some a, Some b) \<Rightarrow> char_of (16 * a + b) # unquote_to_bytes rest
         | _ \<Rightarrow> c # unquote_to_bytes (h1 # h2 # rest))
      else c # unquote_to_bytes (h1 # h2 # rest))"

definition unquote :: "library \<Rightarrow> string \<Rightarrow> string" where
  "unquote lib s =
     (if CHR ''%'' \<notin> set s then s
      else let bytes = unquote_to_bytes s
           in if list_all (\<lambda>c. (of_char c :: nat) < 128) bytes then bytes else utf8_decode lib bytes)"

definition plus_to_space :: "string \<Rightarrow> string" where
  "plus_to_space s = map (\<lambda>c. if c = CHR ''+'' then CHR '' '' else c) s"

text \<open>
  \<^verbatim>\<open>parse_qsl\<close> with its defaults: fields are separated by \<open>&\<close>; a field without \<open>=\<close>
  or with an empty value is dropped.
\<close>

definition parse_field :: "library \<Rightarrow> string \<Rightarrow> (string \<times> string) option" where
  "parse_field lib nv =
     (if CHR ''='' \<notin> set nv then None
      else let name = takeWhile (\<lambda>c. c \<noteq> CHR ''='') nv;
               val = (case dropWhile (\<lambda>c. c \<noteq> CHR ''='') nv of [] \<Rightarrow> [] | e # rest \<Rightarrow> rest)
           in if val = [] then None
              else Some (unquote lib (plus_to_space name), unquote lib (plus_to_space val)))"

definition parse_qsl :: "library \<Rightarrow> string \<Rightarrow> (string \<times> string) list" where
  "parse_qsl lib qs =
     (if qs = [] then [] else List.map_filter (parse_field lib) (split_on CHR ''&'' qs))"

text \<open>\<^verbatim>\<open>parse_qs(query).get("code", [""])[0]\<close>: the first value of the parameter \<open>code\<close>.\<close>

definition query_code :: "library \<Rightarrow> string \<Rightarrow> string" where
  "query_code lib qs =
     (case filter (\<lambda>(n, v). n = ''code'') (parse_qsl lib qs) of
        [] \<Rightarrow> []
      | (n, v) # others \<Rightarrow> v)"

section \<open>Headless login\<close>












text \<open>
  Step 5, the manual loop \<^verbatim>\<open>for _ in range(10)\<close>: the result is the value of \<^verbatim>\<open>code\<close>
  when the loop is left.
\<close>

definition is_code_redirect :: "string \<Rightarrow> bool" where
  "is_code_redirect location = (startswith REDIRECT_URI location \<or> contains ''code='' location)"

text \<open>
  \<^verbatim>\<open>urlparse\<close>, \<^verbatim>\<open>parse_qs\<close> and the choice of the first \<open>code\<close>; the \<^verbatim>\<open>ValueError\<close> of
  \<^verbatim>\<open>urlparse\<close> is not caught in \<^verbatim>\<open>headless_login\<close>.
\<close>

definition extract_code :: "library \<Rightarrow> string \<Rightarrow> error + string" where
  "extract_code lib location =
     (case urlparse_query lib location of
        Inl e \<Rightarrow> Inl e
      | Inr query \<Rightarrow> Inr (query_code lib query))"

fun follow_redirects ::
  "library \<Rightarrow> nat \<Rightarrow> string \<Rightarrow> auth_manager \<Rightarrow> (error + string option) \<times> auth_manager" where
  "follow_redirects lib 0 current_url s = (Inr None, s)"
| "follow_redirects lib (Suc n) current_url s =
     (case http_request (session_get current_url False) s of
        (Inl e, s1) \<Rightarrow> (Inl e, s1)
      | (Inr resp, s1) \<Rightarrow>
          if resp_status resp = 302 \<or> resp_status resp = 303 \<or> resp_status resp = 301 then
            (case resp_location resp of
               None \<Rightarrow> (Inr None, s1)
             | Some location \<Rightarrow>
                 if location = [] then (Inr None, s1)
                 else if is_code_redirect location then
                   (case extract_code lib location of
                      Inl e \<Rightarrow> (Inl e, s1)
                    | Inr code \<Rightarrow> (Inr (Some code), s1))
                 else follow_redirects lib n location s1)
          else (Inr None, s1))"

definition no_code_error :: error where
  "no_code_error =
     DimplexAuthError ''Failed to obtain auth code after successful login. Redirect URI might have changed.''"

text \<open>The loop, the test \<^verbatim>\<open>if not code\<close> and the exchange that end \<^verbatim>\<open>headless_login\<close>.\<close>

definition redirect_phase ::
  "library \<Rightarrow> real \<Rightarrow> string \<Rightarrow> auth_manager \<Rightarrow> (error + unit) \<times> auth_manager" where
  "redirect_phase lib now url s =
     (case follow_redirects lib 10 url s of
        (Inl e, s1) \<Rightarrow> (Inl e, s1)
      | (Inr code, s1) \<Rightarrow>
        (case code of
           None \<Rightarrow> (Inl no_code_error, s1)
         | Some c \<Rightarrow> if c = [] then (Inl no_code_error, s1) else exchange_code now c s1))"


section \<open>Token persistence\<close>

text \<open>
  The file system maps a path to its node: a file with its text, or a node that cannot be
  opened (a directory, a file without permission). \<^verbatim>\<open>_LOGGER\<close> calls are recorded for
  these two functions only, as level and format string; elsewhere logging changes neither
  state nor control flow and is left out.
\<close>

datatype fnode = File string | NoAccess

type_synonym filesystem = "string \<rightharpoonup> fnode"

datatype log_level = LOG_INFO | LOG_ERROR

type_synonym log_record = "log_level \<times> string"

definition token_blob :: "auth_manager \<Rightarrow> json" where
  "token_blob s =
     JObj [(''access_token'', access_token s), (''refresh_token'', refresh_token s),
           (''expires_at'', expires_at s)]"

definition save_tokens ::
  "library \<Rightarrow> string \<Rightarrow> auth_manager \<Rightarrow> filesystem \<Rightarrow> (error + unit) \<times> filesystem \<times> log_record list" where
  "save_tokens lib file_path s fs =
     (case fs file_path of
        Some NoAccess \<Rightarrow> (Inl OSError, fs, [])
      | _ \<Rightarrow> (Inr (), fs(file_path \<mapsto> File (json_dumps lib (token_blob s))),
               [(LOG_INFO, ''Tokens saved to %s'')]))"

text \<open>
  \<^verbatim>\<open>load_tokens\<close>: \<^verbatim>\<open>except Exception\<close> turns every failure of \<^verbatim>\<open>open\<close> and
  \<^verbatim>\<open>json.load\<close> into \<^verbatim>\<open>None\<close>, so the result type has no error.
\<close>

definition load_tokens :: "library \<Rightarrow> string \<Rightarrow> filesystem \<Rightarrow> json \<times> log_record list" where
  "load_tokens lib file_path fs =
     (case fs file_path of
        None \<Rightarrow> (JNull, [])
      | Some NoAccess \<Rightarrow> (JNull, [(LOG_ERROR, ''Failed to load tokens from %s: %s'')])
      | Some (File txt) \<Rightarrow>
        (case json_loads lib txt of
           Inl e \<Rightarrow> (JNull, [(LOG_ERROR, ''Failed to load tokens from %s: %s'')])
         | Inr v \<Rightarrow> (v, [])))"

section \<open>Inputs for the worked examples\<close>

text \<open>
  The states and responses of \<^verbatim>\<open>tests/test_auth.py\<close>: a manager holding an expired access
  token and a refresh token, a response of the token endpoint, and a token file. The
  sample library knows the JSON texts the examples use.
\<close>

definition stored_state :: "reply list \<Rightarrow> auth_manager" where
  "stored_state replies =
     \<lparr>access_token = JStr ''old_token'', refresh_token = JStr ''old_refresh'', expires_at = JInt 1,
      sent = [], pending = replies\<rparr>"

definition token_response :: "int \<Rightarrow> string \<Rightarrow> error + json \<Rightarrow> response" where
  "token_response st body js =
     \<lparr>resp_status = st, resp_text = body, resp_json = js, resp_location = None, resp_url = token_url\<rparr>"

definition full_grant :: "(string \<times> json) list" where
  "full_grant = [(''access_token'', JStr ''A''), (''refresh_token'', JStr ''B''), (''expires_in'', JInt 3600)]"


definition saved_text :: string where
  "saved_text = ''{\"access_token\": \"old_token\", \"refresh_token\": \"old_refresh\", \"expires_at\": 1}''"

definition settings_text :: string where
  "settings_text = ''{\"csrf\": \"tok\", \"transId\": \"tx1\"}''"


definition sample_library :: library where
  "sample_library =
     \<lparr>json_loads = (\<lambda>t. case map_of
        [(saved_text, token_blob (stored_state [])),
         (''null'', JNull),
         (settings_text, JObj [(''csrf'', JStr ''tok''), (''transId'', JStr ''tx1'')]),
         (''{\"csrf\": \"tok\"}'', JObj [(''csrf'', JStr ''tok'')]),
         (''{\"status\": \"400\", \"message\": \"Invalid password\"}'',
            JObj [(''status'', JStr ''400''), (''message'', JStr ''Invalid password'')]),
         (''{\"status\": \"200\"}'', JObj [(''status'', JStr ''200'')])] t of
           None \<Rightarrow> Inl JSONDecodeError
         | Some v \<Rightarrow> Inr v),
      json_dumps = (\<lambda>v. if v = token_blob (stored_state []) then saved_text else ''null''),
      urlencode = (\<lambda>ps. concat (map fst ps)),
      form_inputs = (\<lambda>page. []),
      py_str = (\<lambda>v. case v of JStr t \<Rightarrow> t | _ \<Rightarrow> ''None''),
      bracketed_host_ok = (\<lambda>netloc. netloc = ''[::1]''),
      utf8_decode = (\<lambda>bytes. ''?'')\<rparr>"


definition redirect_to :: "string \<Rightarrow> response" where
  "redirect_to l =
     \<lparr>resp_status = 302, resp_text = [], resp_json = Inl JSONDecodeError, resp_location = Some l,
      resp_url = []\<rparr>"

section \<open>Redirect chains\<close>

text \<open>
  Words for the responses of a redirect chain: the statuses the loop follows, a hop that
  the loop follows further (a non-empty \<open>Location\<close> that is not recognised as the final
  redirect), and the requests the loop sends along a list of such hops.
\<close>

definition redirect_status :: "response \<Rightarrow> bool" where
  "redirect_status r = (resp_status r = 302 \<or> resp_status r = 303 \<or> resp_status r = 301)"

definition plain_redirect :: "response \<Rightarrow> bool" where
  "plain_redirect r =
     (redirect_status r \<and>
      (case resp_location r of None \<Rightarrow> False | Some l \<Rightarrow> l \<noteq> [] \<and> \<not> is_code_redirect l))"

definition hop_requests :: "string \<Rightarrow> response list \<Rightarrow> request list" where
  "hop_requests url rs =
     map (\<lambda>u. session_get u False) (take (length rs) (url # map (\<lambda>r. the (resp_location r)) rs))"


section \<open>Facts about the token endpoint calls\<close>

lemma update_tokens_obj:
  "update_tokens now (JObj kvs) s =
     (case float_operand (case map_of kvs ''expires_in'' of None \<Rightarrow> JInt 3600 | Some v \<Rightarrow> v) of
        Inl e \<Rightarrow> (Inl e,
                 s\<lparr>access_token := (case map_of kvs ''access_token'' of None \<Rightarrow> JNull | Some v \<Rightarrow> v),
                   refresh_token := (case map_of kvs ''refresh_token'' of None \<Rightarrow> JNull | Some v \<Rightarrow> v)\<rparr>)
      | Inr n \<Rightarrow> (Inr (),
                 s\<lparr>access_token := (case map_of kvs ''access_token'' of None \<Rightarrow> JNull | Some v \<Rightarrow> v),
                   refresh_token := (case map_of kvs ''refresh_token'' of None \<Rightarrow> JNull | Some v \<Rightarrow> v),
                   expires_at := JFloat (now + n - 60)\<rparr>))"
  by (simp add: update_tokens_def Let_def split: option.splits sum.splits)

lemma update_tokens_sent: "sent (snd (update_tokens now data s)) = sent s"
  by (cases data) (auto simp: update_tokens_def Let_def split: option.splits sum.splits)

lemma update_tokens_pending: "pending (snd (update_tokens now data s)) = pending s"
  by (cases data) (auto simp: update_tokens_def Let_def split: option.splits sum.splits)


lemma float_operand_3600: "float_operand (JInt 3600) = Inr 3600"
  by (simp add: float_limit_def)


lemma refresh_tokens_reply:
  "pending s = Inr resp # rest \<Longrightarrow> resp_status resp = 200 \<Longrightarrow> resp_json resp = Inr data \<Longrightarrow>
   refresh_tokens now s =
     update_tokens now data
       (s\<lparr>sent := sent s @ [session_post token_url (refresh_payload (refresh_token s)) []], pending := rest\<rparr>)"
  by (simp add: refresh_tokens_def http_request_def HTTP_OK_def)

lemma exchange_code_reply:
  "pending s = Inr resp # rest \<Longrightarrow> resp_status resp = 200 \<Longrightarrow> resp_json resp = Inr data \<Longrightarrow>
   exchange_code now code s =
     update_tokens now data
       (s\<lparr>sent := sent s @ [session_post token_url (exchange_payload code) []], pending := rest\<rparr>)"
  by (simp add: exchange_code_def http_request_def HTTP_OK_def)

lemma refresh_tokens_sent:
  "sent (snd (refresh_tokens now s)) = sent s @ [session_post token_url (refresh_payload (refresh_token s)) []]"
  by (auto simp: refresh_tokens_def http_request_def update_tokens_sent split: list.splits sum.splits)


lemma refresh_tokens_rejected:
  "pending s = Inr resp # rest \<Longrightarrow> resp_status resp \<noteq> 200 \<Longrightarrow>
   refresh_tokens now s =
     (Inl (DimplexAuthError (''Failed to refresh token: '' @ str_int (resp_status resp) @ '' - '' @ resp_text resp)),
      s\<lparr>sent := sent s @ [session_post token_url (refresh_payload (refresh_token s)) []], pending := rest\<rparr>)"
  by (simp add: refresh_tokens_def http_request_def HTTP_OK_def)

lemma exchange_code_rejected:
  "pending s = Inr resp # rest \<Longrightarrow> resp_status resp \<noteq> 200 \<Longrightarrow>
   exchange_code now code s =
     (Inl (DimplexAuthError (''Failed to exchange code: '' @ resp_text resp)),
      s\<lparr>sent := sent s @ [session_post token_url (exchange_payload code) []], pending := rest\<rparr>)"
  by (simp add: exchange_code_def http_request_def HTTP_OK_def)

section \<open>Facts about the login flow\<close>


lemma http_request_reply:
  "pending s = r # rest \<Longrightarrow> http_request rq s = (r, s\<lparr>sent := sent s @ [rq], pending := rest\<rparr>)"
  by (simp add: http_request_def)


lemma follow_plain:
  assumes "pending s = Inr r # rest" and "plain_redirect r"
  shows "follow_redirects lib (Suc n) url s =
     follow_redirects lib n (the (resp_location r)) (s\<lparr>sent := sent s @ [session_get url False], pending := rest\<rparr>)"
  using assms
  by (auto simp: http_request_reply plain_redirect_def redirect_status_def split: option.splits)

lemma follow_code:
  assumes "pending s = Inr r # rest" and "redirect_status r" and "resp_location r = Some l"
    and "l \<noteq> []" and "is_code_redirect l"
  shows "follow_redirects lib (Suc n) url s =
     (case extract_code lib l of
        Inl e \<Rightarrow> (Inl e, s\<lparr>sent := sent s @ [session_get url False], pending := rest\<rparr>)
      | Inr c \<Rightarrow> (Inr (Some c), s\<lparr>sent := sent s @ [session_get url False], pending := rest\<rparr>))"
  using assms by (auto simp: http_request_reply redirect_status_def split: sum.splits)

lemma follow_stop:
  assumes "pending s = Inr r # rest"
    and "\<not> redirect_status r \<or> resp_location r = None \<or> resp_location r = Some []"
  shows "follow_redirects lib (Suc n) url s =
     (Inr None, s\<lparr>sent := sent s @ [session_get url False], pending := rest\<rparr>)"
  using assms by (auto simp: http_request_reply redirect_status_def split: option.splits)

lemma follow_plain_chain:
  assumes "\<forall>r\<in>set rs. plain_redirect r" and "pending s = map Inr rs @ rest" and "length rs \<le> n"
  shows "follow_redirects lib n url s =
     follow_redirects lib (n - length rs) (last (url # map (\<lambda>r. the (resp_location r)) rs))
       (s\<lparr>sent := sent s @ hop_requests url rs, pending := rest\<rparr>)"
  using assms
proof (induction rs arbitrary: n url s)
  case Nil
  then have "rest = pending s" by simp
  then show ?case by (simp add: hop_requests_def)
next
  case (Cons r rs)
  then obtain m where n: "n = Suc m" and m: "length rs \<le> m"
    by (cases n) auto
  let ?s1 = "s\<lparr>sent := sent s @ [session_get url False], pending := map Inr rs @ rest\<rparr>"
  have step: "follow_redirects lib (Suc m) url s = follow_redirects lib m (the (resp_location r)) ?s1"
    using Cons.prems by (intro follow_plain) auto
  have ih: "follow_redirects lib m (the (resp_location r)) ?s1 =
      follow_redirects lib (m - length rs) (last (the (resp_location r) # map (\<lambda>r. the (resp_location r)) rs))
        (?s1\<lparr>sent := sent ?s1 @ hop_requests (the (resp_location r)) rs, pending := rest\<rparr>)"
    using Cons.prems m by (intro Cons.IH) auto
  show ?case
    using step ih n by (simp add: hop_requests_def)
qed

lemma follow_chain_then:
  assumes "\<forall>r\<in>set rs. plain_redirect r" and "pending s = map Inr rs @ Inr r # rest" and "length rs < 10"
  shows "\<exists>k. follow_redirects lib 10 url s =
     follow_redirects lib (Suc k) (last (url # map (\<lambda>r. the (resp_location r)) rs))
       (s\<lparr>sent := sent s @ hop_requests url rs, pending := Inr r # rest\<rparr>)"
proof -
  obtain k where k: "10 - length rs = Suc k"
    using assms(3) by (cases "10 - length rs") auto
  have "follow_redirects lib 10 url s =
     follow_redirects lib (10 - length rs) (last (url # map (\<lambda>r. the (resp_location r)) rs))
       (s\<lparr>sent := sent s @ hop_requests url rs, pending := Inr r # rest\<rparr>)"
    using assms by (intro follow_plain_chain) auto
  then show ?thesis
    using k by auto
qed

lemma follow_exhausted:
  assumes "\<forall>r\<in>set rs. plain_redirect r" and "pending s = map Inr rs @ rest" and "length rs = 10"
  shows "follow_redirects lib 10 url s = (Inr None, s\<lparr>sent := sent s @ hop_requests url rs, pending := rest\<rparr>)"
  using follow_plain_chain [OF assms(1) assms(2), where n = 10 and url = url and lib = lib] assms(3)
  by simp

lemma follow_stopped:
  assumes "\<forall>r\<in>set rs. plain_redirect r" and "pending s = map Inr rs @ Inr r # rest" and "length rs < 10"
    and "\<not> redirect_status r \<or> resp_location r = None \<or> resp_location r = Some []"
  shows "follow_redirects lib 10 url s =
     (Inr None,
      s\<lparr>sent := sent s @ hop_requests url rs @
             [session_get (last (url # map (\<lambda>r. the (resp_location r)) rs)) False],
        pending := rest\<rparr>)"
proof -
  obtain k where "follow_redirects lib 10 url s =
     follow_redirects lib (Suc k) (last (url # map (\<lambda>r. the (resp_location r)) rs))
       (s\<lparr>sent := sent s @ hop_requests url rs, pending := Inr r # rest\<rparr>)"
    using follow_chain_then [OF assms(1-3)] by blast
  then show ?thesis
    using follow_stop [where s = "s\<lparr>sent := sent s @ hop_requests url rs, pending := Inr r # rest\<rparr>"
        and r = r and rest = rest and lib = lib, OF _ assms(4)]
    by simp
qed

lemma follow_found:
  assumes "\<forall>r\<in>set rs. plain_redirect r" and "pending s = map Inr rs @ Inr r # rest" and "length rs < 10"
    and "redirect_status r" and "resp_location r = Some l" and "l \<noteq> []" and "is_code_redirect l"
  shows "follow_redirects lib 10 url s =
     (case extract_code lib l of
        Inl e \<Rightarrow> Pair (Inl e)
      | Inr c \<Rightarrow> Pair (Inr (Some c)))
      (s\<lparr>sent := sent s @ hop_requests url rs @
             [session_get (last (url # map (\<lambda>r. the (resp_location r)) rs)) False],
        pending := rest\<rparr>)"
proof -
  obtain k where "follow_redirects lib 10 url s =
     follow_redirects lib (Suc k) (last (url # map (\<lambda>r. the (resp_location r)) rs))
       (s\<lparr>sent := sent s @ hop_requests url rs, pending := Inr r # rest\<rparr>)"
    using follow_chain_then [OF assms(1-3)] by blast
  then show ?thesis
    using follow_code [where s = "s\<lparr>sent := sent s @ hop_requests url rs, pending := Inr r # rest\<rparr>"
        and r = r and rest = rest and l = l and lib = lib, OF _ assms(4-7)]
    by (simp split: sum.splits)
qed









lemma plain_hop: "plain_redirect (redirect_to ''https://login.example/next'')"
  by (simp add: plain_redirect_def redirect_status_def redirect_to_def is_code_redirect_def
      startswith_def REDIRECT_URI_def)






lemma code_location_sample:
  "is_code_redirect (REDIRECT_URI @ ''?code=XYZ123'')"
  "extract_code sample_library (REDIRECT_URI @ ''?code=XYZ123'') = Inr ''XYZ123''"
  "is_code_redirect ''https://login.example/cb?state=1&code=XYZ123''"
  "extract_code sample_library ''https://login.example/cb?state=1&code=XYZ123'' = Inr ''XYZ123''"
  "is_code_redirect ''https://[bad/cb?code=XYZ123''"
  "extract_code sample_library ''https://[bad/cb?code=XYZ123'' = Inl ValueError"
  by (simp_all add: is_code_redirect_def startswith_def REDIRECT_URI_def extract_code_def
      urlparse_query_def url_clean_def strip_scheme_def is_alpha_def is_scheme_char_def url_netloc_def
      netloc_rejected_def query_code_def parse_qsl_def parse_field_def List.map_filter_def
      plus_to_space_def unquote_def)




section \<open>Verified properties\<close>

text \<open>
  C5. \<^verbatim>\<open>is_authenticated\<close> is true exactly when an access token is held (not \<^verbatim>\<open>None\<close>)
  and the clock is before \<open>expires_at\<close>; it is false whenever the access token is unset or
  \<open>expires_at \<le> now\<close>. It is a function of the clock reading and the state alone and returns
  no state: it has no effect and sends no request.
\<close>

theorem is_authenticated_iff:
  "(is_authenticated now s = Inr True) =
     (access_token s \<noteq> JNull \<and> (\<exists>e. as_number (expires_at s) = Some e \<and> now < e))
   \<and> ((access_token s = JNull \<or> (\<exists>e. as_number (expires_at s) = Some e \<and> e \<le> now))
        \<longrightarrow> is_authenticated now s = Inr False)"
  by (auto simp: is_authenticated_def split: option.splits)

theorem is_authenticated_iff_witness:
  "is_authenticated 5 \<lparr>access_token = JStr ''tok'', refresh_token = JNull, expires_at = JInt 10, sent = [], pending = []\<rparr> = Inr True
   \<and> is_authenticated 10 \<lparr>access_token = JStr ''tok'', refresh_token = JNull, expires_at = JInt 10, sent = [], pending = []\<rparr> = Inr False
   \<and> is_authenticated 5 \<lparr>access_token = JNull, refresh_token = JNull, expires_at = JInt 10, sent = [], pending = []\<rparr> = Inr False"
  using is_authenticated_iff [of 5 "\<lparr>access_token = JStr ''tok'', refresh_token = JNull, expires_at = JInt 10, sent = [], pending = []\<rparr>"]
    is_authenticated_iff [of 10 "\<lparr>access_token = JStr ''tok'', refresh_token = JNull, expires_at = JInt 10, sent = [], pending = []\<rparr>"]
    is_authenticated_iff [of 5 "\<lparr>access_token = JNull, refresh_token = JNull, expires_at = JInt 10, sent = [], pending = []\<rparr>"]
  by simp

text \<open>
  C3, as stated, fails: the code takes the status 200 alone for success. The same token
  response with the status 201 makes \<^verbatim>\<open>exchange_code\<close> and \<^verbatim>\<open>refresh_tokens\<close> raise
  \<^verbatim>\<open>DimplexAuthError\<close>, and nothing is stored.
\<close>

theorem token_response_status_201:
  "exchange_code 1000 ''XYZ123'' (stored_state [Inr (token_response 201 [] (Inr (JObj full_grant)))]) =
     (Inl (DimplexAuthError ''Failed to exchange code: ''),
      (stored_state [])\<lparr>sent := [session_post token_url (exchange_payload ''XYZ123'') []]\<rparr>)
   \<and> fst (refresh_tokens 1000 (stored_state [Inr (token_response 201 [] (Inr (JObj full_grant)))])) =
       Inl (DimplexAuthError ''Failed to refresh token: 201 - '')
   \<and> tokens_of (snd (refresh_tokens 1000 (stored_state [Inr (token_response 201 [] (Inr (JObj full_grant)))]))) =
       (JStr ''old_token'', JStr ''old_refresh'', JInt 1)"
  by (simp add: exchange_code_rejected refresh_tokens_rejected stored_state_def token_response_def
      tokens_of_def) code_simp

text \<open>
  C3, amended. A token response with \<open>access_token\<close> A, \<open>refresh_token\<close> B and \<open>expires_in\<close>
  3600, processed by \<^verbatim>\<open>_update_tokens\<close> at time T, leaves the state with these two tokens
  and \<open>expires_at = T + 3600 - 60\<close>; without \<open>expires_in\<close> the lifetime is 3600 seconds before
  the 60 seconds are subtracted. The same holds after \<^verbatim>\<open>exchange_code\<close> and
  \<^verbatim>\<open>refresh_tokens\<close> when the response they receive has the status 200 (\<^verbatim>\<open>HTTP_OK\<close>).
\<close>

theorem update_tokens_response:
  "(map_of kvs ''access_token'' = Some (JStr a) \<and> map_of kvs ''refresh_token'' = Some (JStr b) \<and>
    map_of kvs ''expires_in'' = Some (JInt 3600) \<longrightarrow>
      update_tokens T (JObj kvs) s =
        (Inr (), s\<lparr>access_token := JStr a, refresh_token := JStr b, expires_at := JFloat (T + 3600 - 60)\<rparr>))
   \<and> (map_of kvs ''expires_in'' = None \<longrightarrow>
        fst (update_tokens T (JObj kvs) s) = Inr () \<and>
        expires_at (snd (update_tokens T (JObj kvs) s)) = JFloat (T + 3600 - 60))
   \<and> (pending s = Inr resp # rest \<and> resp_status resp = HTTP_OK \<and> resp_json resp = Inr (JObj kvs) \<and>
      map_of kvs ''access_token'' = Some (JStr a) \<and> map_of kvs ''refresh_token'' = Some (JStr b) \<and>
      map_of kvs ''expires_in'' = Some (JInt 3600) \<longrightarrow>
        fst (exchange_code T code s) = Inr () \<and>
        tokens_of (snd (exchange_code T code s)) = (JStr a, JStr b, JFloat (T + 3600 - 60)) \<and>
        fst (refresh_tokens T s) = Inr () \<and>
        tokens_of (snd (refresh_tokens T s)) = (JStr a, JStr b, JFloat (T + 3600 - 60)))"
  by (simp add: update_tokens_obj exchange_code_reply refresh_tokens_reply HTTP_OK_def tokens_of_def
      float_limit_def)

theorem update_tokens_response_witness:
  "update_tokens 1000 (JObj full_grant) (stored_state []) =
     (Inr (), (stored_state [])\<lparr>access_token := JStr ''A'', refresh_token := JStr ''B'', expires_at := JFloat 4540\<rparr>)
   \<and> expires_at (snd (update_tokens 1000 (JObj [(''access_token'', JStr ''A'')]) (stored_state []))) = JFloat 4540
   \<and> tokens_of (snd (exchange_code 1000 ''XYZ123'' (stored_state [Inr (token_response 200 [] (Inr (JObj full_grant)))])))
       = (JStr ''A'', JStr ''B'', JFloat 4540)
   \<and> tokens_of (snd (refresh_tokens 1000 (stored_state [Inr (token_response 200 [] (Inr (JObj full_grant)))])))
       = (JStr ''A'', JStr ''B'', JFloat 4540)"
  using update_tokens_response [of full_grant "''A''" "''B''" 1000 "stored_state []"]
    update_tokens_response [of "[(''access_token'', JStr ''A'')]" "''A''" "''B''" 1000 "stored_state []"]
    update_tokens_response [of full_grant "''A''" "''B''" 1000
      "stored_state [Inr (token_response 200 [] (Inr (JObj full_grant)))]"
      "token_response 200 [] (Inr (JObj full_grant))" "[]" "''XYZ123''"]
  by (simp add: full_grant_def stored_state_def token_response_def HTTP_OK_def)

text \<open>
  C1, as stated, fails: \<^verbatim>\<open>get_access_token\<close> tests the refresh token first, so a state with
  a valid access token and no refresh token raises \<^verbatim>\<open>DimplexAuthError\<close>.
\<close>

theorem get_access_token_needs_refresh_token:
  "is_authenticated 0 \<lparr>access_token = JStr ''cached_token'', refresh_token = JNull,
       expires_at = JInt 9999999999, sent = [], pending = []\<rparr> = Inr True
   \<and> fst (get_access_token 0 0 \<lparr>access_token = JStr ''cached_token'', refresh_token = JNull,
       expires_at = JInt 9999999999, sent = [], pending = []\<rparr>)
     = Inl (DimplexAuthError ''No refresh token available. User must authenticate first.'')"
  by (simp add: get_access_token_def is_authenticated_def)

text \<open>
  C1, amended. When a refresh token is held: with an access token that is set and not
  expired, \<^verbatim>\<open>get_access_token\<close> returns it and leaves the manager and its session as they
  were (no request); with the access token unset or expired, it sends exactly one request, the
  refresh, and when that is answered by a status 200 whose JSON object has no \<open>expires_in\<close>
  or one that can be added to the clock (a \<^verbatim>\<open>float\<close>, a \<^verbatim>\<open>bool\<close>, or an \<^verbatim>\<open>int\<close> within
  the range of \<^verbatim>\<open>float\<close>), it returns the access token of the response.
\<close>

theorem get_access_token_cached_or_refreshed:
  assumes "truthy (refresh_token s)"
  shows "(access_token s \<noteq> JNull \<and> as_number (expires_at s) = Some e \<and> now < e \<longrightarrow>
            get_access_token now now' s = (Inr (access_token s), s))
       \<and> (access_token s = JNull \<or> (as_number (expires_at s) = Some e \<and> e \<le> now) \<longrightarrow>
            sent (snd (get_access_token now now' s)) =
              sent s @ [session_post token_url (refresh_payload (refresh_token s)) []]
            \<and> (pending s = Inr resp # rest \<and> resp_status resp = HTTP_OK \<and> resp_json resp = Inr (JObj kvs) \<and>
               float_operand (case map_of kvs ''expires_in'' of None \<Rightarrow> JInt 3600 | Some v \<Rightarrow> v) = Inr n \<longrightarrow>
                 fst (get_access_token now now' s) =
                   Inr (case map_of kvs ''access_token'' of None \<Rightarrow> JNull | Some v \<Rightarrow> v)))"
proof -
  have cached: "get_access_token now now' s = (Inr (access_token s), s)"
    if "access_token s \<noteq> JNull" "as_number (expires_at s) = Some e" "now < e"
    using that assms by (simp add: get_access_token_def is_authenticated_def)
  have expired: "is_authenticated now s = Inr False"
    if "access_token s = JNull \<or> (as_number (expires_at s) = Some e \<and> e \<le> now)"
    using that by (auto simp: is_authenticated_def)
  have unfold: "get_access_token now now' s =
      (case refresh_tokens now' s of (Inl e, s1) \<Rightarrow> (Inl e, s1) | (Inr u, s1) \<Rightarrow> (Inr (access_token s1), s1))"
    if "is_authenticated now s = Inr False"
    using that assms by (simp add: get_access_token_def)
  have one: "sent (snd (get_access_token now now' s)) =
      sent s @ [session_post token_url (refresh_payload (refresh_token s)) []]"
    if "is_authenticated now s = Inr False"
    using refresh_tokens_sent [of now' s] unfold [OF that]
    by (auto split: prod.splits sum.splits)
  have fresh: "fst (get_access_token now now' s) =
      Inr (case map_of kvs ''access_token'' of None \<Rightarrow> JNull | Some v \<Rightarrow> v)"
    if "is_authenticated now s = Inr False" "pending s = Inr resp # rest" "resp_status resp = HTTP_OK"
      "resp_json resp = Inr (JObj kvs)"
      "float_operand (case map_of kvs ''expires_in'' of None \<Rightarrow> JInt 3600 | Some v \<Rightarrow> v) = Inr n"
    using that unfold [OF that(1)]
    by (simp add: refresh_tokens_reply update_tokens_obj HTTP_OK_def)
  show ?thesis
    using cached expired one fresh by blast
qed

theorem get_access_token_cached_or_refreshed_witness:
  "get_access_token 0 0 ((stored_state [])\<lparr>expires_at := JInt 9999999999\<rparr>) =
     (Inr (JStr ''old_token''), (stored_state [])\<lparr>expires_at := JInt 9999999999\<rparr>)
   \<and> fst (get_access_token 5 1000 (stored_state [Inr (token_response 200 [] (Inr (JObj full_grant)))])) =
       Inr (JStr ''A'')
   \<and> sent (snd (get_access_token 5 1000 (stored_state [Inr (token_response 200 [] (Inr (JObj full_grant)))]))) =
       [session_post token_url (refresh_payload (JStr ''old_refresh'')) []]"
proof -
  let ?expired = "stored_state [Inr (token_response 200 [] (Inr (JObj full_grant)))]"
  have t1: "truthy (refresh_token ((stored_state [])\<lparr>expires_at := JInt 9999999999\<rparr>))"
    by (simp add: stored_state_def)
  have t2: "truthy (refresh_token ?expired)"
    by (simp add: stored_state_def)
  have first: "get_access_token 0 0 ((stored_state [])\<lparr>expires_at := JInt 9999999999\<rparr>) =
     (Inr (JStr ''old_token''), (stored_state [])\<lparr>expires_at := JInt 9999999999\<rparr>)"
    using get_access_token_cached_or_refreshed [OF t1, of 9999999999 0 0]
    by (simp add: stored_state_def)
  have second: "fst (get_access_token 5 1000 ?expired) = Inr (JStr ''A'')
      \<and> sent (snd (get_access_token 5 1000 ?expired)) =
          [session_post token_url (refresh_payload (JStr ''old_refresh'')) []]"
    using get_access_token_cached_or_refreshed [OF t2, where e = 1 and now = 5 and now' = 1000
        and resp = "token_response 200 [] (Inr (JObj full_grant))" and rest = "[]"
        and kvs = full_grant and n = 3600]
    by (simp add: stored_state_def token_response_def full_grant_def HTTP_OK_def float_limit_def)
  show ?thesis
    using first second by simp
qed

text \<open>
  C4, as stated, fails: \<^verbatim>\<open>refresh_tokens\<close> has no test of the refresh token. Without one it
  still posts to the token endpoint (with \<^verbatim>\<open>refresh_token = None\<close> in the payload), and a
  granting answer is stored.
\<close>

theorem refresh_tokens_without_refresh_token:
  "refresh_tokens 1000 \<lparr>access_token = JNull, refresh_token = JNull, expires_at = JInt 0, sent = [],
       pending = [Inr (token_response 200 [] (Inr (JObj full_grant)))]\<rparr>
   = (Inr (), \<lparr>access_token = JStr ''A'', refresh_token = JStr ''B'', expires_at = JFloat 4540,
        sent = [session_post token_url (refresh_payload JNull) []], pending = []\<rparr>)"
  by (simp add: refresh_tokens_def http_request_def token_response_def HTTP_OK_def update_tokens_obj
      full_grant_def float_limit_def)

text \<open>
  C4, amended. The test is in \<^verbatim>\<open>get_access_token\<close>: with no refresh token (\<^verbatim>\<open>None\<close> or
  empty) it raises \<^verbatim>\<open>DimplexAuthError\<close> and leaves the manager and its session as they were,
  so no request is sent. \<^verbatim>\<open>refresh_tokens\<close> itself always sends its request.
\<close>

theorem get_access_token_no_refresh_token:
  "(\<not> truthy (refresh_token s) \<longrightarrow>
      get_access_token now now' s =
        (Inl (DimplexAuthError ''No refresh token available. User must authenticate first.''), s))
   \<and> sent (snd (refresh_tokens now s)) = sent s @ [session_post token_url (refresh_payload (refresh_token s)) []]"
  by (simp add: get_access_token_def refresh_tokens_sent)

theorem get_access_token_no_refresh_token_witness:
  "get_access_token 0 0 \<lparr>access_token = JNull, refresh_token = JNull, expires_at = JInt 0,
       sent = [], pending = []\<rparr> =
     (Inl (DimplexAuthError ''No refresh token available. User must authenticate first.''),
      \<lparr>access_token = JNull, refresh_token = JNull, expires_at = JInt 0, sent = [], pending = []\<rparr>)"
  using get_access_token_no_refresh_token [of "\<lparr>access_token = JNull, refresh_token = JNull,
      expires_at = JInt 0, sent = [], pending = []\<rparr>" 0 0]
  by simp

text \<open>
  C2. On a response whose status is not 200, \<^verbatim>\<open>refresh_tokens\<close> raises
  \<^verbatim>\<open>DimplexAuthError\<close> with the status and the body in its message. \<^verbatim>\<open>exchange_code\<close>
  raises it with the body alone: the answers 400 and 500 with the same body give the same
  exception, so its error does not carry the HTTP status.
\<close>

theorem exchange_code_error_omits_status:
  "fst (exchange_code 0 ''XYZ123'' (stored_state [Inr (token_response 400 ''{\"error\": \"invalid_grant\"}'' (Inl ClientError))]))
     = Inl (DimplexAuthError ''Failed to exchange code: {\"error\": \"invalid_grant\"}'')
   \<and> fst (exchange_code 0 ''XYZ123'' (stored_state [Inr (token_response 500 ''{\"error\": \"invalid_grant\"}'' (Inl ClientError))]))
     = Inl (DimplexAuthError ''Failed to exchange code: {\"error\": \"invalid_grant\"}'')
   \<and> fst (refresh_tokens 0 (stored_state [Inr (token_response 400 ''{\"error\": \"invalid_grant\"}'' (Inl ClientError))]))
     = Inl (DimplexAuthError ''Failed to refresh token: 400 - {\"error\": \"invalid_grant\"}'')"
  by (simp add: exchange_code_rejected refresh_tokens_rejected stored_state_def token_response_def) code_simp

text \<open>
  C10, as stated, fails: \<^verbatim>\<open>_update_tokens\<close> adds \<open>expires_in\<close> to the clock, so a status 200
  response that omits \<open>refresh_token\<close> and whose \<open>expires_in\<close> is not a number makes
  \<^verbatim>\<open>refresh_tokens\<close> raise \<^verbatim>\<open>TypeError\<close>, after both tokens have been overwritten (an
  \<^verbatim>\<open>int\<close> too large for a \<^verbatim>\<open>float\<close> raises \<^verbatim>\<open>OverflowError\<close> in the same way).
\<close>

theorem refresh_tokens_bad_expires_in:
  "refresh_tokens 1000
     (stored_state [Inr (token_response 200 [] (Inr (JObj [(''access_token'', JStr ''A''), (''expires_in'', JStr ''3600'')])))])
   = (Inl TypeError,
      \<lparr>access_token = JStr ''A'', refresh_token = JNull, expires_at = JInt 1,
       sent = [session_post token_url (refresh_payload (JStr ''old_refresh'')) []], pending = []\<rparr>)"
  by (simp add: refresh_tokens_def http_request_def token_response_def HTTP_OK_def update_tokens_obj stored_state_def)

text \<open>
  C10, amended. For every status 200 response whose JSON is an object with \<open>expires_in\<close>
  absent or a number that can be added to the clock (a \<^verbatim>\<open>float\<close>, a \<^verbatim>\<open>bool\<close>, or an
  \<^verbatim>\<open>int\<close> below \<open>2^1024 - 2^970\<close> in absolute value, which converts to a \<^verbatim>\<open>float\<close>),
  \<^verbatim>\<open>exchange_code\<close> and \<^verbatim>\<open>refresh_tokens\<close> raise nothing and store
  what the object holds: an omitted \<open>refresh_token\<close> overwrites the stored one with
  \<^verbatim>\<open>None\<close>, and an omitted \<open>access_token\<close> leaves the access token \<^verbatim>\<open>None\<close> and the
  manager unauthenticated.
\<close>

theorem token_response_not_validated:
  assumes "pending s = Inr resp # rest" and "resp_status resp = HTTP_OK"
    and "resp_json resp = Inr (JObj kvs)"
    and "float_operand (case map_of kvs ''expires_in'' of None \<Rightarrow> JInt 3600 | Some v \<Rightarrow> v) = Inr n"
  shows "fst (refresh_tokens now s) = Inr () \<and> fst (exchange_code now code s) = Inr ()
       \<and> tokens_of (snd (refresh_tokens now s)) =
           (case map_of kvs ''access_token'' of None \<Rightarrow> JNull | Some v \<Rightarrow> v,
            case map_of kvs ''refresh_token'' of None \<Rightarrow> JNull | Some v \<Rightarrow> v, JFloat (now + n - 60))
       \<and> tokens_of (snd (exchange_code now code s)) = tokens_of (snd (refresh_tokens now s))
       \<and> (map_of kvs ''refresh_token'' = None \<longrightarrow>
            refresh_token (snd (refresh_tokens now s)) = JNull \<and>
            refresh_token (snd (exchange_code now code s)) = JNull)
       \<and> (map_of kvs ''access_token'' = None \<longrightarrow>
            access_token (snd (refresh_tokens now s)) = JNull \<and>
            access_token (snd (exchange_code now code s)) = JNull \<and>
            is_authenticated t (snd (refresh_tokens now s)) = Inr False \<and>
            is_authenticated t (snd (exchange_code now code s)) = Inr False)"
  using assms
  by (simp add: refresh_tokens_reply exchange_code_reply update_tokens_obj HTTP_OK_def tokens_of_def
      is_authenticated_def)

theorem token_response_not_validated_witness:
  "fst (refresh_tokens 1000 (stored_state [Inr (token_response 200 [] (Inr (JObj [(''expires_in'', JInt 3600)])))])) = Inr ()
   \<and> tokens_of (snd (refresh_tokens 1000 (stored_state [Inr (token_response 200 [] (Inr (JObj [(''expires_in'', JInt 3600)])))])))
       = (JNull, JNull, JFloat 4540)
   \<and> is_authenticated 0 (snd (refresh_tokens 1000 (stored_state [Inr (token_response 200 [] (Inr (JObj [(''expires_in'', JInt 3600)])))])))
       = Inr False"
  using token_response_not_validated [of "stored_state [Inr (token_response 200 [] (Inr (JObj [(''expires_in'', JInt 3600)])))]"
      "token_response 200 [] (Inr (JObj [(''expires_in'', JInt 3600)]))" "[]" "[(''expires_in'', JInt 3600)]" 3600 1000 "''c''" 0]
  by (simp add: stored_state_def token_response_def HTTP_OK_def float_limit_def)

text \<open>
  C8. \<^verbatim>\<open>load_tokens\<close> on a path that does not exist returns \<^verbatim>\<open>None\<close> and logs nothing; on
  a file that cannot be read, or whose text makes \<^verbatim>\<open>json.load\<close> raise, it returns
  \<^verbatim>\<open>None\<close> and logs the failure. Its result has no exception.
\<close>

theorem load_tokens_recovers:
  "(fs file_path = None \<longrightarrow> load_tokens lib file_path fs = (JNull, []))
   \<and> (fs file_path = Some NoAccess \<longrightarrow>
        load_tokens lib file_path fs = (JNull, [(LOG_ERROR, ''Failed to load tokens from %s: %s'')]))
   \<and> (fs file_path = Some (File contents) \<and> json_loads lib contents = Inl e \<longrightarrow>
        load_tokens lib file_path fs = (JNull, [(LOG_ERROR, ''Failed to load tokens from %s: %s'')]))"
  by (simp add: load_tokens_def)

theorem load_tokens_recovers_witness:
  "load_tokens sample_library ''dimplex_tokens.json'' Map.empty = (JNull, [])
   \<and> load_tokens sample_library ''dimplex_tokens.json'' [''dimplex_tokens.json'' \<mapsto> NoAccess]
       = (JNull, [(LOG_ERROR, ''Failed to load tokens from %s: %s'')])
   \<and> load_tokens sample_library ''dimplex_tokens.json'' [''dimplex_tokens.json'' \<mapsto> File ''{not json'']
       = (JNull, [(LOG_ERROR, ''Failed to load tokens from %s: %s'')])"
  using load_tokens_recovers [where fs = "Map.empty" and file_path = "''dimplex_tokens.json''" and lib = sample_library]
    load_tokens_recovers [where fs = "[''dimplex_tokens.json'' \<mapsto> NoAccess]"
      and file_path = "''dimplex_tokens.json''" and lib = sample_library]
    load_tokens_recovers [where fs = "[''dimplex_tokens.json'' \<mapsto> File ''{not json'']"
      and file_path = "''dimplex_tokens.json''" and contents = "''{not json''" and lib = sample_library
      and e = JSONDecodeError]
  by (simp add: sample_library_def saved_text_def settings_text_def)

text \<open>
  C9. For every token state: when \<^verbatim>\<open>save_tokens\<close> returns normally and the JSON library
  reads back the text it wrote for the saved dict, \<^verbatim>\<open>load_tokens\<close> on the same path
  returns the dict of the saved \<open>access_token\<close>, \<open>refresh_token\<close> and \<open>expires_at\<close>, and a
  manager built from it holds the same three values.
\<close>

theorem save_load_roundtrip:
  assumes "fst (save_tokens lib file_path s fs) = Inr ()"
    and "json_loads lib (json_dumps lib (token_blob s)) = Inr (token_blob s)"
  shows "load_tokens lib file_path (fst (snd (save_tokens lib file_path s fs))) =
           (JObj [(''access_token'', access_token s), (''refresh_token'', refresh_token s),
                  (''expires_at'', expires_at s)], [])
       \<and> (\<exists>m. init_manager session (fst (load_tokens lib file_path (fst (snd (save_tokens lib file_path s fs))))) = Inr m
              \<and> tokens_of m = tokens_of s)"
proof -
  have saved: "fst (snd (save_tokens lib file_path s fs)) = fs(file_path \<mapsto> File (json_dumps lib (token_blob s)))"
    using assms(1) by (auto simp: save_tokens_def split: option.splits fnode.splits)
  have loaded: "load_tokens lib file_path (fs(file_path \<mapsto> File (json_dumps lib (token_blob s)))) = (token_blob s, [])"
    using assms(2) by (simp add: load_tokens_def)
  have init: "init_manager session (token_blob s) =
      Inr \<lparr>access_token = access_token s, refresh_token = refresh_token s, expires_at = expires_at s,
           sent = [], pending = session\<rparr>"
    by (simp add: init_manager_def token_blob_def)
  show ?thesis
    using saved loaded init by (simp add: token_blob_def tokens_of_def)
qed

theorem save_load_roundtrip_witness:
  "fst (save_tokens sample_library ''dimplex_tokens.json'' (stored_state []) Map.empty) = Inr ()
   \<and> load_tokens sample_library ''dimplex_tokens.json''
       (fst (snd (save_tokens sample_library ''dimplex_tokens.json'' (stored_state []) Map.empty)))
     = (JObj [(''access_token'', JStr ''old_token''), (''refresh_token'', JStr ''old_refresh''),
              (''expires_at'', JInt 1)], [])"
proof -
  have a: "fst (save_tokens sample_library ''dimplex_tokens.json'' (stored_state []) Map.empty) = Inr ()"
    by (simp add: save_tokens_def)
  have b: "json_loads sample_library (json_dumps sample_library (token_blob (stored_state []))) =
      Inr (token_blob (stored_state []))"
    by (simp add: sample_library_def)
  show ?thesis
    using a save_load_roundtrip [OF a b, of "[]"] by (simp add: stored_state_def)
qed

text \<open>
  The manual redirect-following phase in general: ten followed hops (the bound), or a hop
  that is no redirect or has no (or an empty) \<open>Location\<close>, raise \<^verbatim>\<open>DimplexAuthError\<close>; a
  final redirect within the first ten hops whose \<open>Location\<close> the URL parser accepts leads to
  \<^verbatim>\<open>exchange_code\<close> with the first \<open>code\<close> value of its query, and to the same error when
  the query has none.
\<close>

lemma redirect_phase_chain:
  "(pending s = map Inr rs @ rest \<and> (\<forall>r\<in>set rs. plain_redirect r) \<and> length rs = 10 \<longrightarrow>
        redirect_phase lib now url s =
          (Inl no_code_error, s\<lparr>sent := sent s @ hop_requests url rs, pending := rest\<rparr>))
   \<and> (pending s = map Inr rs @ Inr r # rest \<and> (\<forall>r\<in>set rs. plain_redirect r) \<and> length rs < 10 \<and>
      (\<not> redirect_status r \<or> resp_location r = None \<or> resp_location r = Some []) \<longrightarrow>
        redirect_phase lib now url s =
          (Inl no_code_error,
           s\<lparr>sent := sent s @ hop_requests url rs @
                  [session_get (last (url # map (\<lambda>r. the (resp_location r)) rs)) False],
             pending := rest\<rparr>))
   \<and> (pending s = map Inr rs @ Inr r # rest \<and> (\<forall>r\<in>set rs. plain_redirect r) \<and> length rs < 10 \<and>
      redirect_status r \<and> resp_location r = Some l \<and> l \<noteq> [] \<and> is_code_redirect l \<and>
      extract_code lib l = Inr c \<longrightarrow>
        redirect_phase lib now url s =
          (if c = [] then Pair (Inl no_code_error) else exchange_code now c)
            (s\<lparr>sent := sent s @ hop_requests url rs @
                   [session_get (last (url # map (\<lambda>r. the (resp_location r)) rs)) False],
              pending := rest\<rparr>))"
proof (intro conjI impI)
  assume "pending s = map Inr rs @ rest \<and> (\<forall>r\<in>set rs. plain_redirect r) \<and> length rs = 10"
  then show "redirect_phase lib now url s =
          (Inl no_code_error, s\<lparr>sent := sent s @ hop_requests url rs, pending := rest\<rparr>)"
    using follow_exhausted [of rs s rest lib url] by (simp add: redirect_phase_def)
next
  assume "pending s = map Inr rs @ Inr r # rest \<and> (\<forall>r\<in>set rs. plain_redirect r) \<and> length rs < 10 \<and>
      (\<not> redirect_status r \<or> resp_location r = None \<or> resp_location r = Some [])"
  then show "redirect_phase lib now url s =
          (Inl no_code_error,
           s\<lparr>sent := sent s @ hop_requests url rs @
                  [session_get (last (url # map (\<lambda>r. the (resp_location r)) rs)) False],
             pending := rest\<rparr>)"
    using follow_stopped [of rs s r rest lib url] by (simp add: redirect_phase_def)
next
  assume "pending s = map Inr rs @ Inr r # rest \<and> (\<forall>r\<in>set rs. plain_redirect r) \<and> length rs < 10 \<and>
      redirect_status r \<and> resp_location r = Some l \<and> l \<noteq> [] \<and> is_code_redirect l \<and>
      extract_code lib l = Inr c"
  then show "redirect_phase lib now url s =
          (if c = [] then Pair (Inl no_code_error) else exchange_code now c)
            (s\<lparr>sent := sent s @ hop_requests url rs @
                   [session_get (last (url # map (\<lambda>r. the (resp_location r)) rs)) False],
              pending := rest\<rparr>)"
    using follow_found [of rs s r rest l lib url] by (simp add: redirect_phase_def)
qed

text \<open>
  C6. The code breaks the claim where the \<open>Location\<close> of the third hop has a host that
  \<^verbatim>\<open>urlparse\<close> refuses (here an opening bracket without its closing one): its query string
  is \<open>code=XYZ123\<close>, but \<^verbatim>\<open>urlparse\<close> raises \<^verbatim>\<open>ValueError\<close>, which \<^verbatim>\<open>headless_login\<close> does
  not catch. No code is extracted, \<^verbatim>\<open>exchange_code\<close> is not called (the token endpoint's
  answer stays unread and no POST is sent), and the exception is no \<^verbatim>\<open>DimplexAuthError\<close>.
  With a host that \<^verbatim>\<open>urlparse\<close> accepts the same chain ends in the call
  \<^verbatim>\<open>exchange_code("XYZ123")\<close>.
\<close>

theorem redirect_phase_malformed_host:
  "redirect_phase sample_library 1000 ''https://login.example/start''
     (stored_state [Inr (redirect_to ''https://login.example/next''),
                    Inr (redirect_to ''https://login.example/next''),
                    Inr (redirect_to ''https://[bad/cb?code=XYZ123''),
                    Inr (token_response 200 [] (Inr (JObj full_grant)))])
   = (Inl ValueError,
      \<lparr>access_token = JStr ''old_token'', refresh_token = JStr ''old_refresh'', expires_at = JInt 1,
       sent = [session_get ''https://login.example/start'' False,
               session_get ''https://login.example/next'' False,
               session_get ''https://login.example/next'' False],
       pending = [Inr (token_response 200 [] (Inr (JObj full_grant)))]\<rparr>)
   \<and> redirect_phase sample_library 1000 ''https://login.example/start''
     (stored_state [Inr (redirect_to ''https://login.example/next''),
                    Inr (redirect_to ''https://login.example/next''),
                    Inr (redirect_to ''https://login.example/cb?state=1&code=XYZ123''),
                    Inr (token_response 200 [] (Inr (JObj full_grant)))])
   = (Inr (),
      \<lparr>access_token = JStr ''A'', refresh_token = JStr ''B'', expires_at = JFloat 4540,
       sent = [session_get ''https://login.example/start'' False,
               session_get ''https://login.example/next'' False,
               session_get ''https://login.example/next'' False,
               session_post token_url (exchange_payload ''XYZ123'') []],
       pending = []\<rparr>)"
proof -
  let ?hop = "redirect_to ''https://login.example/next''"
  let ?u = "''https://login.example/start''"
  let ?tok = "Inr (token_response 200 [] (Inr (JObj full_grant)))"
  let ?after = "\<lparr>access_token = JStr ''old_token'', refresh_token = JStr ''old_refresh'',
       expires_at = JInt 1,
       sent = [session_get ?u False, session_get ''https://login.example/next'' False,
               session_get ''https://login.example/next'' False],
       pending = [?tok]\<rparr>"
  have chain: "\<forall>r\<in>set [?hop, ?hop]. plain_redirect r" "length [?hop, ?hop] < 10"
    using plain_hop by simp_all
  have bad: "follow_redirects sample_library 10 ?u
      (stored_state [Inr ?hop, Inr ?hop, Inr (redirect_to ''https://[bad/cb?code=XYZ123''), ?tok]) =
      (Inl ValueError, ?after)"
    using follow_found [OF chain(1) _ chain(2), where r = "redirect_to ''https://[bad/cb?code=XYZ123''"
        and l = "''https://[bad/cb?code=XYZ123''" and rest = "[?tok]" and lib = sample_library and url = ?u
        and s = "stored_state [Inr ?hop, Inr ?hop, Inr (redirect_to ''https://[bad/cb?code=XYZ123''), ?tok]"]
      code_location_sample
    by (simp add: stored_state_def redirect_to_def redirect_status_def hop_requests_def)
  have good: "follow_redirects sample_library 10 ?u
      (stored_state [Inr ?hop, Inr ?hop,
         Inr (redirect_to ''https://login.example/cb?state=1&code=XYZ123''), ?tok]) =
      (Inr (Some ''XYZ123''), ?after)"
    using follow_found [OF chain(1) _ chain(2),
        where r = "redirect_to ''https://login.example/cb?state=1&code=XYZ123''"
        and l = "''https://login.example/cb?state=1&code=XYZ123''" and rest = "[?tok]"
        and lib = sample_library and url = ?u
        and s = "stored_state [Inr ?hop, Inr ?hop,
           Inr (redirect_to ''https://login.example/cb?state=1&code=XYZ123''), ?tok]"]
      code_location_sample
    by (simp add: stored_state_def redirect_to_def redirect_status_def hop_requests_def)
  have ex: "exchange_code 1000 ''XYZ123'' ?after =
     (Inr (),
      \<lparr>access_token = JStr ''A'', refresh_token = JStr ''B'', expires_at = JFloat 4540,
       sent = [session_get ?u False, session_get ''https://login.example/next'' False,
               session_get ''https://login.example/next'' False,
               session_post token_url (exchange_payload ''XYZ123'') []],
       pending = []\<rparr>)"
    by (simp add: exchange_code_def http_request_def token_response_def HTTP_OK_def update_tokens_obj
        full_grant_def float_limit_def)
  show ?thesis
    using bad good ex by (simp add: redirect_phase_def)
qed




end
